theory Spec2Isabelle
  imports Main
begin

section \<open>Python values, types and exceptions\<close>

text \<open>
  The wrapper in \<^verbatim>\<open>builder.py\<close> is Python. The fragment of Python it needs is modelled
  directly: type objects (the values of the \<^verbatim>\<open>parameters\<close> mapping and the second
  component of a field specification), a small universe of values, and the exceptions the
  module can raise as the left summand of a result.
\<close>

datatype pytype =
    TBool
  | TStr
  | TInt
  | TFloat
  | TTuple
  | TClass string  \<comment> \<open>any other class, by the qualified name \<^verbatim>\<open>repr\<close> prints\<close>

datatype pyval =
    PNone
  | PBool bool
  | PStr string
  | PLazy string string  \<comment> \<open>lazy output of a workflow node: node, field\<close>
  | PTuple "pyval list"

datatype error =
    NameError string
  | TypeError string
  | ValueError string
  | IndexError
  | FileExistsError string
  | FileNotFoundError string
  | NotADirectoryError string

subsection \<open>\<^verbatim>\<open>repr\<close> and \<^verbatim>\<open>str\<close> of the values that reach an f-string\<close>

definition hex_digit :: "nat \<Rightarrow> char" where
  "hex_digit n = ''0123456789abcdef'' ! (n mod 16)"

text \<open>
  \<^verbatim>\<open>repr\<close> of a \<^verbatim>\<open>str\<close>: single quotes unless the text holds a single quote and no
  double quote; the quote character and the backslash are escaped, tab, newline and
  carriage return get their letter escapes, other control characters \<^verbatim>\<open>\xhh\<close>.
  Strings are modelled as ASCII text.
\<close>

definition repr_quote :: "string \<Rightarrow> char" where
  "repr_quote s = (if CHR 0x27 \<in> set s \<and> CHR 0x22 \<notin> set s then CHR 0x22 else CHR 0x27)"

definition repr_char :: "char \<Rightarrow> char \<Rightarrow> string" where
  "repr_char q c =
     (if c = q \<or> c = CHR 0x5C then [CHR 0x5C, c]
      else if c = CHR 0x09 then [CHR 0x5C, CHR ''t'']
      else if c = CHR 0x0A then [CHR 0x5C, CHR ''n'']
      else if c = CHR 0x0D then [CHR 0x5C, CHR ''r'']
      else if (of_char c :: nat) < 32 \<or> (of_char c :: nat) = 127
        then [CHR 0x5C, CHR ''x'', hex_digit (of_char c div 16), hex_digit (of_char c)]
      else [c])"

definition repr_str :: "string \<Rightarrow> string" where
  "repr_str s = (let q = repr_quote s in [q] @ concat (map (repr_char q) s) @ [q])"

fun type_name :: "pytype \<Rightarrow> string" where
  "type_name TBool = ''bool''"
| "type_name TStr = ''str''"
| "type_name TInt = ''int''"
| "type_name TFloat = ''float''"
| "type_name TTuple = ''tuple''"
| "type_name (TClass n) = n"

definition repr_type :: "pytype \<Rightarrow> string" where
  "repr_type t = ''<class '' @ [CHR 0x27] @ type_name t @ [CHR 0x27] @ ''>''"

text \<open>
  An item of \<^verbatim>\<open>parameters.items()\<close> is a 2-tuple \<^verbatim>\<open>(name, type)\<close>. Formatting it in an
  f-string calls \<^verbatim>\<open>str\<close>, which for a tuple is its \<^verbatim>\<open>repr\<close>; \<^verbatim>\<open>type\<close> of it is
  \<^verbatim>\<open>tuple\<close>, whatever its components are.
\<close>

definition str_item :: "string \<times> pytype \<Rightarrow> string" where
  "str_item param = ''('' @ repr_str (fst param) @ '', '' @ repr_type (snd param) @ '')''"

definition type_of_item :: "string \<times> pytype \<Rightarrow> pytype" where
  "type_of_item param = TTuple"

section \<open>Field specifications of the main task\<close>

text \<open>
  A field specification is the triple \<^verbatim>\<open>(name, type, metadata)\<close> of \<^verbatim>\<open>BIDS_APP_INPUTS\<close>.
  The metadata keys that may be absent are options. The first component is a string in
  the table; the loop over the dynamic parameters stores the whole \<^verbatim>\<open>items()\<close> entry
  there.
\<close>

datatype field_name = Name string | Item "string \<times> pytype"

record field_spec =
  fname :: field_name
  ftype :: pytype
  help_string :: string
  argstr :: "string option"
  position :: "int option"
  mandatory :: "bool option"

definition BIDS_APP_INPUTS :: "field_spec list" where
  "BIDS_APP_INPUTS =
    [\<lparr>fname = Name ''dataset_path'', ftype = TClass ''fileformats.generic.Directory'',
      help_string = ''Path to BIDS dataset in the container'',
      argstr = Some ([CHR 0x27] @ ''{dataset_path}'' @ [CHR 0x27]),
      position = Some 1, mandatory = Some True\<rparr>,
     \<lparr>fname = Name ''output_path'', ftype = TClass ''pathlib.Path'',
      help_string = ''Directory where outputs will be written in the container'',
      argstr = Some ([CHR 0x27] @ ''{output_path}'' @ [CHR 0x27]),
      position = Some 2, mandatory = None\<rparr>,
     \<lparr>fname = Name ''analysis_level'', ftype = TStr,
      help_string = ''The analysis level the app will be run at'',
      argstr = Some [], position = Some 3, mandatory = None\<rparr>,
     \<lparr>fname = Name ''participant_label'', ftype = TStr,
      help_string = ''The IDs to include in the analysis'',
      argstr = Some ''--participant-label '', position = Some 4, mandatory = None\<rparr>,
     \<lparr>fname = Name ''flags'', ftype = TStr,
      help_string = ''Additional flags to pass to the app'',
      argstr = Some [], position = Some (- 1), mandatory = None\<rparr>,
     \<lparr>fname = Name ''work_dir'', ftype = TClass ''pathlib.Path'',
      help_string =
        ''Directory where the nipype temporary working directories will be stored'',
      argstr = Some (''--work-dir '' @ [CHR 0x27] @ ''{work_dir}'' @ [CHR 0x27]),
      position = None, mandatory = None\<rparr>,
     \<lparr>fname = Name ''setup_completed'', ftype = TBool,
      help_string =
        ''Dummy field to ensure that the BIDS dataset construction completes first'',
      argstr = None, position = None, mandatory = None\<rparr>]"

text \<open>
  Lines 199--209: one field per entry of \<^verbatim>\<open>parameters.items()\<close>. The loop variable
  \<^verbatim>\<open>param\<close> is the entry itself; the flag text, the test against \<^verbatim>\<open>bool\<close> and the
  recorded type are all computed from it.
\<close>

definition param_field :: "string \<times> pytype \<Rightarrow> field_spec" where
  "param_field param =
     (let argstr0 = ''--'' @ str_item param;
          argstr1 = (if type_of_item param \<noteq> TBool then argstr0 @ '' %s'' else argstr0)
      in \<lparr>fname = Item param, ftype = type_of_item param,
          help_string = ''Optional parameter '' @ str_item param,
          argstr = Some argstr1, position = None, mandatory = None\<rparr>)"

definition build_input_fields :: "(string \<times> pytype) list \<Rightarrow> field_spec list" where
  "build_input_fields parameters =
     fold (\<lambda>param input_fields. input_fields @ [param_field param]) parameters BIDS_APP_INPUTS"

subsection \<open>The order of the arguments on the command line\<close>

text \<open>
  The shell task library places the argument of each field by the \<^verbatim>\<open>position\<close> entry of
  its metadata, with the convention of Python indices: the non-negative positions in
  ascending order, then the fields that declare no position, in the order of the list,
  then the negative positions in ascending order, so that \<^verbatim>\<open>-1\<close> is the last argument.
  A field without \<^verbatim>\<open>argstr\<close> contributes no argument. The functions below are that
  ordering; entries are inserted to the right of entries with an equal position.
\<close>

fun insort_right :: "int \<times> 'a \<Rightarrow> (int \<times> 'a) list \<Rightarrow> (int \<times> 'a) list" where
  "insort_right e [] = [e]"
| "insort_right e (x # xs) = (if fst e < fst x then e # x # xs else x # insort_right e xs)"

fun sort_step ::
  "int option \<times> 'a \<Rightarrow> (int \<times> 'a) list \<times> 'a list \<times> (int \<times> 'a) list
     \<Rightarrow> (int \<times> 'a) list \<times> 'a list \<times> (int \<times> 'a) list" where
  "sort_step (None, arg) (pos, none, neg) = (pos, none @ [arg], neg)"
| "sort_step (Some p, arg) (pos, none, neg) =
     (if p < 0 then (pos, none, insort_right (p, arg) neg)
      else (insort_right (p, arg) pos, none, neg))"

definition position_sort :: "(int option \<times> 'a) list \<Rightarrow> 'a list" where
  "position_sort args =
     (case fold sort_step args ([], [], []) of
        (pos, none, neg) \<Rightarrow> map snd pos @ none @ map snd neg)"

definition arg_order :: "field_spec list \<Rightarrow> field_name list" where
  "arg_order flds =
     position_sort
       (map (\<lambda>f. (position f, fname f)) (filter (\<lambda>f. argstr f \<noteq> None) flds))"

text \<open>
  The order as the specification lists it (section 6, ``App invocation argument
  grammar''): the three positional arguments, the participant label, the flag string,
  the working directory, the dynamic parameters.
\<close>

definition spec_arg_order :: "(string \<times> pytype) list \<Rightarrow> field_name list" where
  "spec_arg_order parameters =
     [Name ''dataset_path'', Name ''output_path'', Name ''analysis_level'',
      Name ''participant_label'', Name ''flags'', Name ''work_dir'']
     @ map Item parameters"

section \<open>Paths\<close>

text \<open>
  \<^verbatim>\<open>pathlib.Path\<close> on a POSIX host: an anchor (empty, \<^verbatim>\<open>/\<close> or \<^verbatim>\<open>//\<close>) and the list of
  components, empty components and \<^verbatim>\<open>.\<close> dropped. The operator \<^verbatim>\<open>/\<close> appends the
  components of its right operand, unless that operand is absolute, in which case it
  replaces the left one.
\<close>

datatype path = Path (anchor: string) (parts: "string list")

fun split_sep :: "string \<Rightarrow> string list" where
  "split_sep [] = [[]]"
| "split_sep (c # cs) =
     (if c = CHR ''/'' then [] # split_sep cs
      else (case split_sep cs of [] \<Rightarrow> [[c]] | w # ws \<Rightarrow> (c # w) # ws))"

definition parse_anchor :: "string \<Rightarrow> string" where
  "parse_anchor s =
     (if take 2 s = ''//'' \<and> take 3 s \<noteq> ''///'' then ''//''
      else if take 1 s = ''/'' then ''/''
      else [])"

definition PurePath :: "string \<Rightarrow> path" where
  "PurePath s = Path (parse_anchor s) (filter (\<lambda>p. p \<noteq> [] \<and> p \<noteq> ''.'') (split_sep s))"

definition joinpath :: "path \<Rightarrow> string \<Rightarrow> path" where
  "joinpath p s =
     (let q = PurePath s
      in if anchor q \<noteq> [] then q else Path (anchor p) (parts p @ parts q))"

fun join_sep :: "string list \<Rightarrow> string" where
  "join_sep [] = []"
| "join_sep [x] = x"
| "join_sep (x # y # ys) = x @ ''/'' @ join_sep (y # ys)"

definition path_str :: "path \<Rightarrow> string" where
  "path_str p =
     (if anchor p = [] \<and> parts p = [] then ''.'' else anchor p @ join_sep (parts p))"

section \<open>Steps of the workflow constructor\<close>

text \<open>
  \<^verbatim>\<open>Clinical\<close> is imported; the module names one member of it, \<^verbatim>\<open>session\<close>. Every other
  member is represented by its name.
\<close>

datatype Clinical = session | frequency string

datatype environment = Native | Docker string

definition CONTAINER_DERIV_PATH :: string where
  "CONTAINER_DERIV_PATH = ''/frametree_bids_outputs''"

definition CONTAINER_DATASET_PATH :: string where
  "CONTAINER_DATASET_PATH = ''/frametree_bids_dataset''"

definition DEFAULT_BIDS_ID :: string where
  "DEFAULT_BIDS_ID = ''DEFAULT''"

text \<open>
  The names a function body does not bind are looked up in the module's globals when the
  line runs, and the lookup of an unbound name raises \<^verbatim>\<open>NameError\<close>. The table lists what
  the module binds at its top level: its imports, the logger, the two classes, the three
  tasks, the constants and the two field tables. Neither \<^verbatim>\<open>kwargs\<close> nor
  \<^verbatim>\<open>output_fields\<close> is a builtin, so the table decides both lookups.
\<close>

datatype gval =
    GDict "(string \<times> pyval) list"
  | GFields "field_spec list"
  | GStr string
  | GObject

definition module_globals :: "(string \<times> gval) list" where
  "module_globals =
    [(''annotations'', GObject), (''attrs'', GObject), (''copy'', GObject),
     (''tempfile'', GObject), (''logging'', GObject), (''ty'', GObject),
     (''shutil'', GObject), (''shlex'', GObject), (''Path'', GObject),
     (''shell'', GObject), (''workflow'', GObject), (''python'', GObject),
     (''Docker'', GObject), (''Native'', GObject), (''__version__'', GObject),
     (''FrameSet'', GObject), (''PipelineField'', GObject), (''Axes'', GObject),
     (''FileSet'', GObject), (''Directory'', GObject), (''Clinical'', GObject),
     (''JsonEdit'', GObject), (''ClassResolver'', GObject),
     (''ObjectListConverter'', GObject), (''Bids'', GObject),
     (''logger'', GObject), (''BidsInput'', GObject), (''BidsOutput'', GObject),
     (''BidsApp'', GObject),
     (''CONTAINER_DERIV_PATH'', GStr CONTAINER_DERIV_PATH),
     (''CONTAINER_DATASET_PATH'', GStr CONTAINER_DATASET_PATH),
     (''DEFAULT_BIDS_ID'', GStr DEFAULT_BIDS_ID),
     (''ToBids'', GObject), (''ExtractBids'', GObject),
     (''BIDS_APP_INPUTS'', GFields BIDS_APP_INPUTS),
     (''BIDS_APP_OUTPUTS'', GObject)]"

definition lookup_global :: "(string \<times> gval) list \<Rightarrow> string \<Rightarrow> error + gval" where
  "lookup_global g n = (case map_of g n of None \<Rightarrow> Inl (NameError n) | Some v \<Rightarrow> Inr v)"

text \<open>Assignment to a key of a dictionary: in place when the key is there, else at the end.\<close>

fun dict_set :: "('k \<times> 'v) list \<Rightarrow> 'k \<Rightarrow> 'v \<Rightarrow> ('k \<times> 'v) list" where
  "dict_set [] k v = [(k, v)]"
| "dict_set ((k', v') # d) k v = (if k' = k then (k, v) # d else (k', v') # dict_set d k v)"

text \<open>
  Lines 215--220: without a container image the app runs on the host and writes to the
  host output directory; with one it runs in the container and writes to the fixed
  mount point.
\<close>

definition select_environment :: "string option \<Rightarrow> path \<Rightarrow> string \<times> environment" where
  "select_environment container_image app_output_dir =
     (case container_image of
        None \<Rightarrow> (path_str app_output_dir, Native)
      | Some img \<Rightarrow> (CONTAINER_DERIV_PATH, Docker img))"

text \<open>
  Lines 222--226. The session branch stores the row id under \<^verbatim>\<open>participant_label\<close> in
  \<^verbatim>\<open>kwargs\<close>, a name the function does not bind; the result carries the globals with the
  dictionary updated.
\<close>

definition select_analysis_level ::
  "(string \<times> gval) list \<Rightarrow> Clinical \<Rightarrow> string \<Rightarrow> error + string \<times> (string \<times> gval) list" where
  "select_analysis_level g row_frequency row_id =
     (if row_frequency = session then
        (case lookup_global g ''kwargs'' of
           Inl e \<Rightarrow> Inl e
         | Inr (GDict d) \<Rightarrow>
             Inr (''participant'',
                  dict_set g ''kwargs'' (GDict (dict_set d ''participant_label'' (PStr row_id))))
         | Inr _ \<Rightarrow> Inl (TypeError ''object does not support item assignment''))
      else Inr (''group'', g))"

text \<open>
  Lines 125--134: a directory that is not given is a fresh temporary directory; one that
  is given becomes a \<^verbatim>\<open>Path\<close> (and is created on disk, which leaves the path as it is).
\<close>

definition resolve_dir :: "string option \<Rightarrow> string \<Rightarrow> path" where
  "resolve_dir given tmp = (case given of None \<Rightarrow> PurePath tmp | Some d \<Rightarrow> PurePath d)"

section \<open>The dataset handle\<close>

text \<open>
  The store behind a \<^verbatim>\<open>FrameSet\<close> is an external collaborator. The handle is modelled by
  what the module touches: its \<^verbatim>\<open>id\<close> (the root location), the sidecar edits installed on
  the store, the registered sinks in the order of registration, and the cells written
  through a row, addressed by frequency, row id and column name. Registering a sink and
  writing a cell are taken on their success path.
\<close>

datatype JsonEdit = JsonEdit (edit_path: string) (jq_expr: string)

datatype edit_arg = Obj JsonEdit | Tup string string

record sink =
  sink_name :: string
  sink_datatype :: string
  sink_path :: string

record FrameSet =
  frameset_id :: string
  store_json_edits :: "JsonEdit list"
  sinks :: "sink list"
  cells :: "Clinical \<times> string \<times> string \<Rightarrow> pyval option"

text \<open>The converter of the store turns each pair of the list into a \<^verbatim>\<open>JsonEdit\<close>.\<close>

fun attr_converter :: "edit_arg list \<Rightarrow> JsonEdit list" where
  "attr_converter [] = []"
| "attr_converter (Obj e # xs) = e # attr_converter xs"
| "attr_converter (Tup p e # xs) = JsonEdit p e # attr_converter xs"

definition add_sink :: "FrameSet \<Rightarrow> string \<Rightarrow> string \<Rightarrow> string \<Rightarrow> FrameSet" where
  "add_sink frameset n dt p =
     frameset\<lparr>sinks := sinks frameset @ [\<lparr>sink_name = n, sink_datatype = dt, sink_path = p\<rparr>]\<rparr>"

definition row_set :: "FrameSet \<Rightarrow> Clinical \<Rightarrow> string \<Rightarrow> string \<Rightarrow> pyval \<Rightarrow> FrameSet" where
  "row_set frameset row_frequency id' n v =
     frameset\<lparr>cells := (cells frameset)((row_frequency, id', n) \<mapsto> v)\<rparr>"

section \<open>Splitting the sidecar-edit string\<close>

text \<open>
  \<^verbatim>\<open>shlex.split\<close> in its default POSIX mode, without comments: tokens end at white space;
  single quotes keep their content as it is; in double quotes a backslash escapes the
  quote and the backslash only; elsewhere a backslash escapes the next character. The
  state of the scanner is the one of the library: between tokens, in a word, in a quoted
  section, after a backslash. \<^verbatim>\<open>quoted\<close> records that the token had a quoted section, so
  that an empty quoted token is still a token.
\<close>

datatype lex_state = Between | Word | Quoted char | EscWord | EscQuoted char

definition whitespace :: "char \<Rightarrow> bool" where
  "whitespace c = (c = CHR '' '' \<or> c = CHR 0x09 \<or> c = CHR 0x0D \<or> c = CHR 0x0A)"

definition is_quote :: "char \<Rightarrow> bool" where
  "is_quote c = (c = CHR 0x27 \<or> c = CHR 0x22)"

definition emit :: "string \<Rightarrow> bool \<Rightarrow> string list \<Rightarrow> string list" where
  "emit token quoted acc = (if token \<noteq> [] \<or> quoted then acc @ [token] else acc)"

fun read_tokens ::
  "lex_state \<Rightarrow> string \<Rightarrow> bool \<Rightarrow> string list \<Rightarrow> string \<Rightarrow> error + string list" where
  "read_tokens Between token quoted acc [] = Inr (emit token quoted acc)"
| "read_tokens Word token quoted acc [] = Inr (emit token quoted acc)"
| "read_tokens (Quoted q) token quoted acc [] = Inl (ValueError ''No closing quotation'')"
| "read_tokens EscWord token quoted acc [] = Inl (ValueError ''No escaped character'')"
| "read_tokens (EscQuoted q) token quoted acc [] = Inl (ValueError ''No escaped character'')"
| "read_tokens Between token quoted acc (c # cs) =
     (if whitespace c then
        (if token \<noteq> [] \<or> quoted then read_tokens Between [] False (acc @ [token]) cs
         else read_tokens Between token quoted acc cs)
      else if c = CHR 0x5C then read_tokens EscWord token quoted acc cs
      else if is_quote c then read_tokens (Quoted c) token quoted acc cs
      else read_tokens Word [c] quoted acc cs)"
| "read_tokens Word token quoted acc (c # cs) =
     (if whitespace c then
        (if token \<noteq> [] \<or> quoted then read_tokens Between [] False (acc @ [token]) cs
         else read_tokens Between token quoted acc cs)
      else if is_quote c then read_tokens (Quoted c) token quoted acc cs
      else if c = CHR 0x5C then read_tokens EscWord token quoted acc cs
      else read_tokens Word (token @ [c]) quoted acc cs)"
| "read_tokens (Quoted q) token quoted acc (c # cs) =
     (if c = q then read_tokens Word token True acc cs
      else if c = CHR 0x5C \<and> q = CHR 0x22 then read_tokens (EscQuoted q) token True acc cs
      else read_tokens (Quoted q) (token @ [c]) True acc cs)"
| "read_tokens EscWord token quoted acc (c # cs) =
     read_tokens Word (token @ [c]) quoted acc cs"
| "read_tokens (EscQuoted q) token quoted acc (c # cs) =
     (if c \<noteq> CHR 0x5C \<and> c \<noteq> q
      then read_tokens (Quoted q) (token @ [CHR 0x5C, c]) quoted acc cs
      else read_tokens (Quoted q) (token @ [c]) quoted acc cs)"

definition shlex_split :: "string \<Rightarrow> error + string list" where
  "shlex_split s = read_tokens Between [] False [] s"

text \<open>The slice \<^verbatim>\<open>xs[::2]\<close>; \<^verbatim>\<open>xs[1::2]\<close> is the same slice of the list without its head.\<close>

fun every_second :: "'a list \<Rightarrow> 'a list" where
  "every_second [] = []"
| "every_second [x] = [x]"
| "every_second (x # y # zs) = x # every_second zs"

text \<open>
  The pairing as the specification words it: the tokens alternate key, value, key, value.
\<close>

fun alternating_pairs :: "string list \<Rightarrow> JsonEdit list" where
  "alternating_pairs (k # v # rest) = JsonEdit k v # alternating_pairs rest"
| "alternating_pairs _ = []"

section \<open>Stage-In: \<^verbatim>\<open>ToBids\<close>\<close>

record BidsInput =
  in_name :: string
  in_path :: string
  in_datatype :: string

record BidsOutput =
  out_name :: string
  out_datatype :: string
  out_path :: "string option"

text \<open>
  The state \<^verbatim>\<open>ToBids\<close> works on: the messages passed to \<^verbatim>\<open>logger.warning\<close> and the dataset
  handle. A value of \<^verbatim>\<open>input_values\<close> is \<^verbatim>\<open>None\<close> for the marker \<^verbatim>\<open>attrs.NOTHING\<close>.
  Lines 311--315 are one step of the loop.
\<close>

definition warning_message :: "string \<Rightarrow> string" where
  "warning_message inpt_name =
     ''No input provided for '' @ [CHR 0x27] @ inpt_name @ [CHR 0x27] @ '' input''"

definition write_input ::
  "Clinical \<Rightarrow> string \<Rightarrow> string \<times> pyval option \<Rightarrow> string list \<times> FrameSet
     \<Rightarrow> string list \<times> FrameSet" where
  "write_input row_frequency id' item st =
     (case snd item of
        None \<Rightarrow> (fst st @ [warning_message (fst item)], snd st)
      | Some inpt_value \<Rightarrow> (fst st, row_set (snd st) row_frequency id' (fst item) inpt_value))"

definition install_json_edits :: "FrameSet \<Rightarrow> JsonEdit list \<Rightarrow> string list \<Rightarrow> FrameSet" where
  "install_json_edits frameset fixed_json_edits je_args =
     frameset\<lparr>store_json_edits :=
       attr_converter
         (map Obj fixed_json_edits
          @ map (\<lambda>(k, v). Tup k v) (zip (every_second je_args) (every_second (tl je_args))))\<rparr>"

definition ToBids ::
  "Clinical \<Rightarrow> BidsInput list \<Rightarrow> FrameSet \<Rightarrow> string \<Rightarrow> string \<Rightarrow> JsonEdit list
     \<Rightarrow> (string \<times> pyval option) list \<Rightarrow> string list
     \<Rightarrow> string list \<times> (error + FrameSet \<times> bool)" where
  "ToBids row_frequency inputs frameset id' json_edits fixed_json_edits input_values log =
     (case (if json_edits \<noteq> [] then shlex_split json_edits else Inr []) of
        Inl e \<Rightarrow> (log, Inl e)
      | Inr je_args \<Rightarrow>
          (let frameset1 = install_json_edits frameset fixed_json_edits je_args;
               frameset2 =
                 fold (\<lambda>inpt fs. add_sink fs (in_name inpt) (in_datatype inpt) (in_path inpt))
                   inputs frameset1;
               st = fold (write_input row_frequency id') input_values (log, frameset2)
           in (fst st, Inr (snd st, True))))"

section \<open>Extract-Out: \<^verbatim>\<open>ExtractBids\<close>\<close>

text \<open>
  The file system is a map from paths to entries. \<^verbatim>\<open>shutil.copytree\<close> with its defaults
  lists the source (which must be a directory), then creates the destination with
  \<^verbatim>\<open>os.makedirs\<close>, which raises \<^verbatim>\<open>FileExistsError\<close> when the destination exists and
  creates the missing parents, then copies every entry below the source to the same
  relative path below the destination. The copy is taken from the file system as it was
  before the call, which is what the library does when the destination does not lie
  inside the source.
\<close>

datatype entry = Dir | File string

type_synonym filesystem = "path \<Rightarrow> entry option"

definition child :: "path \<Rightarrow> string list \<Rightarrow> path" where
  "child p rel = Path (anchor p) (parts p @ rel)"

definition ancestors :: "path \<Rightarrow> path list" where
  "ancestors p = map (\<lambda>n. Path (anchor p) (take n (parts p))) [0..<length (parts p)]"

definition rel_to :: "path \<Rightarrow> path \<Rightarrow> string list option" where
  "rel_to base p =
     (if anchor p = anchor base \<and> take (length (parts base)) (parts p) = parts base
      then Some (drop (length (parts base)) (parts p))
      else None)"

definition is_file :: "filesystem \<Rightarrow> path \<Rightarrow> bool" where
  "is_file fs p = (case fs p of Some (File c) \<Rightarrow> True | _ \<Rightarrow> False)"

definition copytree :: "filesystem \<Rightarrow> path \<Rightarrow> path \<Rightarrow> error + filesystem" where
  "copytree fs src dst =
     (if fs src = None then Inl (FileNotFoundError (path_str src))
      else if fs src \<noteq> Some Dir then Inl (NotADirectoryError (path_str src))
      else if fs dst \<noteq> None then Inl (FileExistsError (path_str dst))
      else if list_ex (is_file fs) (ancestors dst) then Inl (NotADirectoryError (path_str dst))
      else Inr (\<lambda>p. case rel_to dst p of
                      Some rel \<Rightarrow> fs (child src rel)
                    | None \<Rightarrow> if p \<in> set (ancestors dst) \<and> fs p = None then Some Dir else fs p))"

text \<open>Line 347: the destination of the copy.\<close>

definition derivatives_path :: "string \<Rightarrow> string \<Rightarrow> string \<Rightarrow> path" where
  "derivatives_path dataset_id app_name id' =
     joinpath (joinpath (joinpath (PurePath dataset_id) ''derivatives'') app_name) (''sub-'' @ id')"

text \<open>Lines 352--356: the path of the sink of one output.\<close>

definition output_sink_path :: "BidsOutput \<Rightarrow> string \<Rightarrow> string" where
  "output_sink_path output app_name =
     (case out_path output of
        None \<Rightarrow> []
      | Some p \<Rightarrow> if p \<noteq> [] then p else [])
     @ ''@'' @ app_name"

text \<open>
  Lines 362--364: the cells are read in the order of \<^verbatim>\<open>outputs\<close>; the first read that
  raises ends the loop. Reading a cell is the store's business: \<^verbatim>\<open>row_get\<close> is the read
  of the column of that name in the addressed row.
\<close>

fun read_outputs :: "(string \<Rightarrow> error + pyval) \<Rightarrow> BidsOutput list \<Rightarrow> error + pyval list" where
  "read_outputs row_get [] = Inr []"
| "read_outputs row_get (output # outputs) =
     (case row_get (out_name output) of
        Inl e \<Rightarrow> Inl e
      | Inr v \<Rightarrow>
          (case read_outputs row_get outputs of
             Inl e \<Rightarrow> Inl e
           | Inr vs \<Rightarrow> Inr (v # vs)))"

text \<open>Lines 351--361: every output is registered as a sink of the dataset.\<close>

definition register_outputs :: "FrameSet \<Rightarrow> BidsOutput list \<Rightarrow> string \<Rightarrow> FrameSet" where
  "register_outputs dataset outputs app_name =
     fold (\<lambda>output ds.
             add_sink ds (out_name output) (out_datatype output)
               (output_sink_path output app_name))
       outputs dataset"

text \<open>
  \<^verbatim>\<open>ExtractBids\<close> returns the file system and the handle as the call leaves them, also
  when it raises, next to the exception or the returned value.
\<close>

definition ExtractBids ::
  "(FrameSet \<Rightarrow> filesystem \<Rightarrow> Clinical \<Rightarrow> string \<Rightarrow> string \<Rightarrow> error + pyval)
     \<Rightarrow> filesystem \<Rightarrow> FrameSet \<Rightarrow> Clinical \<Rightarrow> string \<Rightarrow> path \<Rightarrow> BidsOutput list \<Rightarrow> string
     \<Rightarrow> bool \<Rightarrow> (filesystem \<times> FrameSet) \<times> (error + pyval)" where
  "ExtractBids row_get fs dataset row_frequency app_name output_dir outputs id' app_completed =
     (case copytree fs output_dir (derivatives_path (frameset_id dataset) app_name id') of
        Inl e \<Rightarrow> ((fs, dataset), Inl e)
      | Inr fs' \<Rightarrow>
          (let dataset' = register_outputs dataset outputs app_name
           in case read_outputs (row_get dataset' fs' row_frequency id') outputs of
                Inl e \<Rightarrow> ((fs', dataset'), Inl e)
              | Inr output_paths \<Rightarrow>
                  ((fs', dataset'),
                   if length outputs > 1 then Inr (PTuple output_paths)
                   else (case output_paths of
                           [] \<Rightarrow> Inl IndexError
                         | v # vs \<Rightarrow> Inr v))))"

section \<open>The workflow constructor \<^verbatim>\<open>BidsApp\<close>\<close>

text \<open>
  A call with keyword arguments is bound against the signature of the callee: a keyword
  that names no parameter is collected by \<^verbatim>\<open>**\<close> when the signature has one and is a
  \<^verbatim>\<open>TypeError\<close> otherwise, and a parameter without default that receives no argument is a
  \<^verbatim>\<open>TypeError\<close>.
\<close>

record signature =
  sig_required :: "string list"
  sig_var_keyword :: bool

definition bind_keywords :: "signature \<Rightarrow> string list \<Rightarrow> error + unit" where
  "bind_keywords sg given =
     (if \<not> sig_var_keyword sg \<and> list_ex (\<lambda>k. k \<notin> set (sig_required sg)) given
      then Inl (TypeError ''unexpected keyword argument'')
      else if list_ex (\<lambda>p. p \<notin> set given) (sig_required sg)
      then Inl (TypeError ''missing required arguments'')
      else Inr ())"

text \<open>The signatures at lines 292--300 and 320--328; no parameter has a default.\<close>

definition ToBids_signature :: signature where
  "ToBids_signature =
     \<lparr>sig_required =
        [''row_frequency'', ''inputs'', ''frameset'', ''id'', ''json_edits'',
         ''fixed_json_edits''],
      sig_var_keyword = True\<rparr>"

definition ExtractBids_signature :: signature where
  "ExtractBids_signature =
     \<lparr>sig_required =
        [''dataset'', ''row_frequency'', ''app_name'', ''output_dir'', ''outputs'', ''id'',
         ''app_completed''],
      sig_var_keyword = False\<rparr>"

text \<open>The keywords of the calls at lines 170--176 and 255--265.\<close>

definition to_bids_keywords :: "string list" where
  "to_bids_keywords = [''row_frequency'', ''inputs'', ''dataset'', ''id'', ''json_edits'']"

definition extract_bids_keywords :: "string list" where
  "extract_bids_keywords =
     [''app_name'', ''dataset'', ''output_dir'', ''row_frequency'', ''outputs'', ''id'',
      ''app_completed'']"

text \<open>
  Lines 136--137: a frequency given by name is looked up in \<^verbatim>\<open>Clinical\<close>; every name
  other than \<^verbatim>\<open>session\<close> is taken to name the member of that name. Lines 140--153:
  without a dataset one is created below a temporary directory, a path gets a new
  dataset at that location, a handle is used as it is. Creating the dataset is the
  store's business; the new handle has the given location and nothing registered.
\<close>

definition Clinical_by_name :: "string \<Rightarrow> Clinical" where
  "Clinical_by_name n = (if n = ''session'' then session else frequency n)"

datatype dataset_arg = DatasetPath string | DatasetHandle FrameSet

definition create_dataset :: "string \<Rightarrow> FrameSet" where
  "create_dataset location =
     \<lparr>frameset_id = location, store_json_edits = [], sinks = [], cells = Map.empty\<rparr>"

record bids_app_args =
  ba_name :: string
  ba_row_id :: string
  ba_inputs :: "BidsInput list"
  ba_outputs :: "BidsOutput list"
  ba_executable :: string
  ba_container_image :: "string option"
  ba_parameters :: "(string \<times> pytype) list option"
  ba_row_frequency :: "string + Clinical"
  ba_container_type :: string
  ba_dataset :: "dataset_arg option"
  ba_app_output_dir :: "string option"
  ba_app_work_dir :: "string option"
  ba_json_edits :: "(string \<times> string) list option"
  ba_flags :: string

record main_task =
  mt_executable :: string
  mt_inputs :: "field_spec list"
  mt_outputs :: gval
  mt_values :: "(string \<times> pyval) list"
  mt_environment :: environment
  mt_bindings :: "(string \<times> string \<times> string) list"

record workflow =
  wf_main_task :: main_task
  wf_dataset :: FrameSet
  wf_outputs :: "string list"

definition explicit_keywords :: "string list" where
  "explicit_keywords =
     [''dataset_path'', ''output_path'', ''work_dir'', ''analysis_level'', ''executable'',
      ''environment'', ''flags'', ''setup_completed'']"

text \<open>
  \<^verbatim>\<open>BidsApp\<close>, lines 123--269, in the order of its statements. \<^verbatim>\<open>tmp_out\<close>, \<^verbatim>\<open>tmp_work\<close>
  and \<^verbatim>\<open>tmp_ds\<close> are the directories \<^verbatim>\<open>tempfile.mkdtemp\<close> hands out. The free names of
  the body are looked up in the globals of the module. The lists of inputs and outputs
  are taken after their conversion at lines 156--157. The call at line 170 is bound
  against the signature of \<^verbatim>\<open>ToBids\<close> and the call at line 255 against the one of
  \<^verbatim>\<open>ExtractBids\<close>; the task defined at lines 179--190 is never added to the workflow. A
  keyword given both explicitly and through \<^verbatim>\<open>**kwargs\<close> is a \<^verbatim>\<open>TypeError\<close>.
\<close>

definition BidsApp :: "string \<Rightarrow> string \<Rightarrow> string \<Rightarrow> bids_app_args \<Rightarrow> error + workflow" where
  "BidsApp tmp_out tmp_work tmp_ds a =
     (let parameters = (case ba_parameters a of None \<Rightarrow> [] | Some ps \<Rightarrow> ps);
          app_output_dir = resolve_dir (ba_app_output_dir a) tmp_out;
          app_work_dir = resolve_dir (ba_app_work_dir a) tmp_work;
          row_frequency =
            (case ba_row_frequency a of Inl n \<Rightarrow> Clinical_by_name n | Inr m \<Rightarrow> m);
          dataset =
            (case ba_dataset a of
               None \<Rightarrow>
                 create_dataset
                   (path_str (joinpath (PurePath tmp_ds) ''frametree_bids_dataset''))
             | Some (DatasetPath location) \<Rightarrow> create_dataset location
             | Some (DatasetHandle handle) \<Rightarrow> handle);
          input_names = map in_name (ba_inputs a);
          output_names = map out_name (ba_outputs a)
      in case bind_keywords ToBids_signature to_bids_keywords of
           Inl e \<Rightarrow> Inl e
         | Inr to_bids \<Rightarrow>
     (let input_fields = build_input_fields parameters;
          (app_output_path, environment) =
            select_environment (ba_container_image a) app_output_dir
      in case select_analysis_level module_globals row_frequency (ba_row_id a) of
           Inl e \<Rightarrow> Inl e
         | Inr (analysis_level, g') \<Rightarrow>
             (case lookup_global g' ''output_fields'' of
                Inl e \<Rightarrow> Inl e
              | Inr output_fields \<Rightarrow>
                  (case lookup_global g' ''kwargs'' of
                     Inl e \<Rightarrow> Inl e
                   | Inr (GDict kwargs) \<Rightarrow>
                       if list_ex (\<lambda>k. k \<in> set explicit_keywords) (map fst kwargs)
                       then Inl (TypeError ''got multiple values for keyword argument'')
                       else
                         (case bind_keywords ExtractBids_signature extract_bids_keywords of
                            Inl e \<Rightarrow> Inl e
                          | Inr extract_bids \<Rightarrow>
                              Inr
                                \<lparr>wf_main_task =
                                   \<lparr>mt_executable = ba_executable a,
                                    mt_inputs = input_fields,
                                    mt_outputs = output_fields,
                                    mt_values =
                                      [(''dataset_path'', PStr (frameset_id dataset)),
                                       (''output_path'', PStr app_output_path),
                                       (''work_dir'', PStr (path_str app_work_dir)),
                                       (''analysis_level'', PStr analysis_level),
                                       (''executable'', PStr (ba_executable a)),
                                       (''flags'', PStr (ba_flags a)),
                                       (''setup_completed'', PLazy ''to_bids'' ''completed'')]
                                      @ kwargs,
                                    mt_environment = environment,
                                    mt_bindings =
                                      (case ba_container_image a of
                                         None \<Rightarrow> []
                                       | Some img \<Rightarrow>
                                           [(path_str app_output_dir, CONTAINER_DERIV_PATH,
                                             ''rw'')])\<rparr>,
                                 wf_dataset = dataset,
                                 wf_outputs = output_names\<rparr>)
                   | Inr _ \<Rightarrow> Inl (TypeError ''argument after ** must be a mapping'')))))"

section \<open>Example inputs\<close>

text \<open>
  A fresh dataset handle, a small file system with an app output directory and one
  derivatives slot already taken, and a store read that resolves a column to the path of
  its sink. They are the concrete inputs the properties below are evaluated on.
\<close>

definition empty_frameset :: "string \<Rightarrow> FrameSet" where
  "empty_frameset root =
     \<lparr>frameset_id = root, store_json_edits = [], sinks = [], cells = Map.empty\<rparr>"

definition example_fs :: filesystem where
  "example_fs =
     map_of
       [(Path ''/'' [], Dir),
        (Path ''/'' [''out''], Dir),
        (Path ''/'' [''out'', ''freesurfer''], Dir),
        (Path ''/'' [''out'', ''freesurfer'', ''recon-all''], File ''surfaces''),
        (Path ''/'' [''data''], Dir),
        (Path ''/'' [''data'', ''bids''], Dir),
        (Path ''/'' [''data'', ''bids'', ''derivatives''], Dir),
        (Path ''/'' [''data'', ''bids'', ''derivatives'', ''oldapp''], Dir),
        (Path ''/'' [''data'', ''bids'', ''derivatives'', ''oldapp'', ''sub-01''], Dir)]"

definition example_row_get ::
  "FrameSet \<Rightarrow> filesystem \<Rightarrow> Clinical \<Rightarrow> string \<Rightarrow> string \<Rightarrow> error + pyval" where
  "example_row_get dataset fs row_frequency id' n =
     (case find (\<lambda>s. sink_name s = n) (sinks dataset) of
        None \<Rightarrow> Inl (NameError n)
      | Some s \<Rightarrow> Inr (PStr (sink_path s)))"

definition example_args :: bids_app_args where
  "example_args =
     \<lparr>ba_name = ''app'', ba_row_id = ''01'', ba_inputs = [], ba_outputs = [],
      ba_executable = [], ba_container_image = None, ba_parameters = None,
      ba_row_frequency = Inr session, ba_container_type = ''docker'', ba_dataset = None,
      ba_app_output_dir = None, ba_app_work_dir = None, ba_json_edits = None,
      ba_flags = []\<rparr>"

definition example_output :: BidsOutput where
  "example_output =
     \<lparr>out_name = ''recon'', out_datatype = ''Directory'',
      out_path = Some ''freesurfer/recon-all''\<rparr>"

definition whole_output :: BidsOutput where
  "whole_output = \<lparr>out_name = ''all'', out_datatype = ''Directory'', out_path = None\<rparr>"

section \<open>Properties of the main task\<close>

subsection \<open>Auxiliary facts\<close>

lemma build_input_fields_append:
  "fold (\<lambda>param input_fields. input_fields @ [param_field param]) ps fs
     = fs @ map param_field ps"
  by (induction ps arbitrary: fs) simp_all

lemma fold_sort_step_none:
  "fold sort_step (map (\<lambda>x. (None, h x)) xs) (pos, none, neg) = (pos, none @ map h xs, neg)"
  by (induction xs arbitrary: none) simp_all

lemma lookup_kwargs_module:
  "lookup_global module_globals ''kwargs'' = Inl (NameError ''kwargs'')"
  by (simp add: lookup_global_def module_globals_def)

lemma lookup_output_fields_module:
  "lookup_global module_globals ''output_fields'' = Inl (NameError ''output_fields'')"
  by (simp add: lookup_global_def module_globals_def)

text \<open>
  The call at line 170 gives \<^verbatim>\<open>dataset\<close>, which \<^verbatim>\<open>**input_values\<close> collects, and gives
  neither \<^verbatim>\<open>frameset\<close> nor \<^verbatim>\<open>fixed_json_edits\<close>: it cannot be bound. The constructor
  therefore raises for every input, before any part of the main task is built.
\<close>

lemma to_bids_call_unbound:
  "bind_keywords ToBids_signature to_bids_keywords
     = Inl (TypeError ''missing required arguments'')"
  by (simp add: bind_keywords_def ToBids_signature_def to_bids_keywords_def)

lemma BidsApp_raises:
  "BidsApp tmp_out tmp_work tmp_ds a = Inl (TypeError ''missing required arguments'')"
  by (simp add: BidsApp_def to_bids_call_unbound Let_def)

text \<open>
  Past that call the body meets two names that nothing binds: \<^verbatim>\<open>kwargs\<close> at line 224
  in the session branch, and \<^verbatim>\<open>output_fields\<close> at line 231 in every run.
\<close>

text \<open>Every dynamic field carries the value placeholder, whatever the declared type.\<close>

lemma param_field_argstr:
  "argstr (param_field param) = Some (''--'' @ str_item param @ '' %s'')"
  by (simp add: param_field_def type_of_item_def Let_def)

lemma select_analysis_level_group:
  "row_frequency \<noteq> session \<Longrightarrow> select_analysis_level g row_frequency row_id = Inr (''group'', g)"
  by (simp add: select_analysis_level_def)

subsection \<open>The order of the arguments\<close>

text \<open>
  Claim C1, as the code has it. The arguments of the app follow the order: dataset path,
  output path, analysis-level token, participant label, then the working directory, then
  the dynamic parameters in the order of the mapping, and the free-form flag string last:
  its field declares position \<^verbatim>\<open>-1\<close>, while the working directory and the dynamic
  parameters declare none. This holds for every parameter mapping.
\<close>

theorem arg_order_flags_last:
  "arg_order (build_input_fields parameters) =
     [Name ''dataset_path'', Name ''output_path'', Name ''analysis_level'',
      Name ''participant_label'', Name ''work_dir'']
     @ map Item parameters @ [Name ''flags'']"
proof -
  have a: "filter (\<lambda>f. argstr f \<noteq> None) (map param_field parameters)
             = map param_field parameters"
    by (rule filter_True) (auto simp: param_field_def Let_def)
  have b: "map (\<lambda>f. (position f, fname f)) (map param_field parameters)
             = map (\<lambda>x. (None, Item x)) parameters"
    by (simp add: param_field_def Let_def)
  have c: "map (\<lambda>f. (position f, fname f))
             (filter (\<lambda>f. argstr f \<noteq> None) (build_input_fields parameters))
      = map (\<lambda>f. (position f, fname f)) (filter (\<lambda>f. argstr f \<noteq> None) BIDS_APP_INPUTS)
        @ map (\<lambda>x. (None, Item x)) parameters"
    unfolding build_input_fields_def build_input_fields_append filter_append map_append a b ..
  have d: "fold sort_step
             (map (\<lambda>f. (position f, fname f)) (filter (\<lambda>f. argstr f \<noteq> None) BIDS_APP_INPUTS))
             ([], [], [])
      = ([(1, Name ''dataset_path''), (2, Name ''output_path''),
          (3, Name ''analysis_level''), (4, Name ''participant_label'')],
         [Name ''work_dir''], [(- 1, Name ''flags'')])"
    by (simp add: BIDS_APP_INPUTS_def)
  show ?thesis
    unfolding arg_order_def position_sort_def c fold_append comp_def d fold_sort_step_none
    by simp
qed

text \<open>
  The order of claim C1 as it is stated puts the flag string before the working
  directory. Without dynamic parameters the code gives the working directory first.
\<close>

theorem arg_order_counterexample:
  "arg_order (build_input_fields []) \<noteq> spec_arg_order []
   \<and> arg_order (build_input_fields []) =
       [Name ''dataset_path'', Name ''output_path'', Name ''analysis_level'',
        Name ''participant_label'', Name ''work_dir'', Name ''flags'']"
  by (simp add: arg_order_def build_input_fields_def BIDS_APP_INPUTS_def position_sort_def
      spec_arg_order_def)

subsection \<open>Analysis level and participant label\<close>

text \<open>
  Claim C2 asks that a session-level run passes the token \<^verbatim>\<open>participant\<close> and the row id
  as participant label. Evaluated on a session-level run, the step at lines 222--226
  raises \<^verbatim>\<open>NameError\<close> on \<^verbatim>\<open>kwargs\<close> with the globals of the module, and the constructor
  as a whole raises without building a main task.
\<close>

theorem session_branch_NameError:
  "select_analysis_level module_globals session ''01'' = Inl (NameError ''kwargs'')
   \<and> BidsApp ''/tmp/out'' ''/tmp/work'' ''/tmp/ds'' example_args
       = Inl (TypeError ''missing required arguments'')"
  by (simp add: select_analysis_level_def lookup_kwargs_module BidsApp_raises)

subsection \<open>The flag of a dynamic parameter\<close>

text \<open>
  Claim C7 asks for the flag \<^verbatim>\<open>--<name>\<close> for a boolean parameter. Evaluated on the
  parameter \<^verbatim>\<open>verbose\<close> of type \<^verbatim>\<open>bool\<close>, the code formats the whole entry of the mapping
  and appends the value placeholder.
\<close>

theorem bool_parameter_argstr:
  "argstr (param_field (''verbose'', TBool)) = Some ''--('verbose', <class 'bool'>) %s''
   \<and> argstr (param_field (''verbose'', TBool)) \<noteq> Some ''--verbose''"
  by (simp add: param_field_def type_of_item_def str_item_def repr_str_def repr_quote_def
      repr_char_def repr_type_def Let_def)

subsection \<open>The output path\<close>

text \<open>
  Claim C3 asks that the output path handed to the app is the fixed derivatives path of
  the container when an image is configured. Evaluated on a run with an image, lines
  215--220 select that path, but the constructor raises and hands no argument to the
  app: the call at line 170 cannot be bound, and the name \<^verbatim>\<open>output_fields\<close> of line 231
  is bound nowhere.
\<close>

theorem output_path_never_handed_over:
  "fst (select_environment (Some ''bids/app'') (resolve_dir None ''/tmp/out''))
     = ''/frametree_bids_outputs''
   \<and> BidsApp ''/tmp/out'' ''/tmp/work'' ''/tmp/ds''
         (example_args\<lparr>ba_container_image := Some ''bids/app''\<rparr>)
       = Inl (TypeError ''missing required arguments'')
   \<and> lookup_global module_globals ''output_fields'' = Inl (NameError ''output_fields'')"
  by (simp add: select_environment_def CONTAINER_DERIV_PATH_def BidsApp_raises
      lookup_output_fields_module)

section \<open>Properties of Stage-In\<close>

subsection \<open>Auxiliary facts\<close>

lemma attr_converter_fixed:
  "attr_converter (map Obj fixed @ ys) = fixed @ attr_converter ys"
  by (induction fixed) simp_all

lemma attr_converter_pairs:
  "attr_converter (map (\<lambda>(k, v). Tup k v) (zip (every_second xs) (every_second (tl xs))))
     = alternating_pairs xs"
proof (induction xs rule: alternating_pairs.induct)
  case (1 k v rest)
  then show ?case by (cases rest) simp_all
qed simp_all

lemma length_alternating_pairs: "length (alternating_pairs xs) = length xs div 2"
  by (induction xs rule: alternating_pairs.induct) simp_all

lemma install_json_edits_eq:
  "store_json_edits (install_json_edits frameset fixed je_args)
     = fixed @ alternating_pairs je_args"
  by (simp add: install_json_edits_def attr_converter_fixed attr_converter_pairs)

lemma fold_add_sink_inputs:
  "store_json_edits
     (fold (\<lambda>inpt fs. add_sink fs (in_name inpt) (in_datatype inpt) (in_path inpt))
        inputs frameset) = store_json_edits frameset"
  "cells
     (fold (\<lambda>inpt fs. add_sink fs (in_name inpt) (in_datatype inpt) (in_path inpt))
        inputs frameset) = cells frameset"
  by (induction inputs arbitrary: frameset) (simp_all add: add_sink_def)

lemma fold_write_input_edits:
  "store_json_edits (snd (fold (write_input rf i) ivs st)) = store_json_edits (snd st)"
  by (induction ivs arbitrary: st)
    (simp_all add: write_input_def row_set_def split: option.splits)

lemma fold_write_input_log:
  "fst (fold (write_input rf i) ivs st)
     = fst st @ map (\<lambda>item. warning_message (fst item)) (filter (\<lambda>item. snd item = None) ivs)"
  by (induction ivs arbitrary: st) (simp_all add: write_input_def split: option.splits)

lemma fold_write_input_other:
  "\<forall>x. (n, Some x) \<notin> set ivs \<Longrightarrow>
     cells (snd (fold (write_input rf i) ivs st)) (rf, i, n) = cells (snd st) (rf, i, n)"
proof (induction ivs arbitrary: st)
  case Nil
  then show ?case by simp
next
  case (Cons item ivs)
  obtain m v where item: "item = (m, v)" by (cases item)
  from Cons.prems have rest: "\<forall>x. (n, Some x) \<notin> set ivs" by simp
  show ?case
  proof (cases v)
    case None
    with item Cons.IH [OF rest] show ?thesis by (simp add: write_input_def)
  next
    case (Some x)
    with item Cons.prems have "m \<noteq> n" by auto
    with item Some Cons.IH [OF rest] show ?thesis by (simp add: write_input_def row_set_def)
  qed
qed

lemma fold_write_input_written:
  "distinct (map fst ivs) \<Longrightarrow> (n, Some x) \<in> set ivs \<Longrightarrow>
     cells (snd (fold (write_input rf i) ivs st)) (rf, i, n) = Some x"
proof (induction ivs arbitrary: st)
  case Nil
  then show ?case by simp
next
  case (Cons item ivs)
  show ?case
  proof (cases "item = (n, Some x)")
    case True
    from Cons.prems(1) True have "\<forall>y. (n, Some y) \<notin> set ivs"
      by (auto simp: image_iff)
    then have "cells (snd (fold (write_input rf i) ivs (fst st, row_set (snd st) rf i n x)))
                 (rf, i, n) = cells (row_set (snd st) rf i n x) (rf, i, n)"
      using fold_write_input_other [of n ivs rf i "(fst st, row_set (snd st) rf i n x)"] by simp
    moreover have "fold (write_input rf i) (item # ivs) st
                     = fold (write_input rf i) ivs (fst st, row_set (snd st) rf i n x)"
      using True by (simp add: write_input_def)
    ultimately show ?thesis by (simp add: row_set_def)
  next
    case False
    with Cons show ?thesis by simp
  qed
qed

lemma json_edits_tokens:
  "shlex_split json_edits = Inr je_args
     \<Longrightarrow> (if json_edits \<noteq> [] then shlex_split json_edits else Inr []) = Inr je_args"
  by (auto simp: shlex_split_def emit_def)

subsection \<open>The sidecar edits\<close>

text \<open>
  Claim C4, as the code has it. For every sidecar-edit string that the splitter accepts,
  \<^verbatim>\<open>ToBids\<close> succeeds and installs the fixed edits followed by the tokens paired as
  alternating key and value; the number of user edits is half the number of tokens,
  rounded down, so that the last token of an odd list is dropped and no error is raised
  for it.
\<close>

theorem json_edits_appended:
  assumes "shlex_split json_edits = Inr je_args"
  shows "\<exists>frameset'.
           snd (ToBids row_frequency inputs frameset id' json_edits fixed_json_edits
                  input_values log) = Inr (frameset', True)
           \<and> store_json_edits frameset' = fixed_json_edits @ alternating_pairs je_args
           \<and> length (alternating_pairs je_args) = length je_args div 2"
  by (simp add: ToBids_def Let_def json_edits_tokens [OF assms] fold_write_input_edits
      fold_add_sink_inputs install_json_edits_eq length_alternating_pairs)

theorem json_edits_appended_witness:
  "shlex_split ''a 2 b 3'' = Inr [''a'', ''2'', ''b'', ''3'']
   \<and> (\<exists>frameset'.
         snd (ToBids session [] (empty_frameset ''/data/bids'') ''01'' ''a 2 b 3''
                [JsonEdit ''a'' ''1''] [] []) = Inr (frameset', True)
         \<and> store_json_edits frameset' =
             [JsonEdit ''a'' ''1'', JsonEdit ''a'' ''2'', JsonEdit ''b'' ''3''])"
proof -
  have h: "shlex_split ''a 2 b 3'' = Inr [''a'', ''2'', ''b'', ''3'']"
    by (simp add: shlex_split_def whitespace_def is_quote_def emit_def)
  from json_edits_appended [OF h, of session "[]" "empty_frameset ''/data/bids''" "''01''"
      "[JsonEdit ''a'' ''1'']" "[]" "[]"] h
  show ?thesis by simp
qed

text \<open>
  Claim C4 as it is stated makes a string with an odd number of tokens a configuration
  error. The string \<^verbatim>\<open>a 2 b\<close> splits into three tokens, and \<^verbatim>\<open>ToBids\<close> returns normally
  with the single edit \<^verbatim>\<open>(a, 2)\<close> installed.
\<close>

theorem odd_token_count_counterexample:
  "shlex_split ''a 2 b'' = Inr [''a'', ''2'', ''b'']
   \<and> snd (ToBids session [] (empty_frameset ''/data/bids'') ''01'' ''a 2 b'' [] [] [])
       = Inr ((empty_frameset ''/data/bids'')\<lparr>store_json_edits := [JsonEdit ''a'' ''2'']\<rparr>,
              True)"
  by (simp add: shlex_split_def whitespace_def is_quote_def emit_def ToBids_def Let_def
      install_json_edits_def empty_frameset_def)

subsection \<open>Absent and provided inputs\<close>

text \<open>
  Claim C8. When the sidecar-edit string splits and the input names are distinct (they
  are the keys of a dictionary), \<^verbatim>\<open>ToBids\<close> returns normally with the completion flag
  set; it logs exactly one warning for each input whose value is the absent marker, in
  the order of the inputs; the cell of every input with a provided value holds that
  value afterwards, and the cell of every absent input is left as it was.
\<close>

theorem absent_inputs_skipped:
  assumes "shlex_split json_edits = Inr je_args"
      and "distinct (map fst input_values)"
  shows "\<exists>frameset'.
           ToBids row_frequency inputs frameset id' json_edits fixed_json_edits input_values log
             = (log @ map (\<lambda>item. warning_message (fst item))
                        (filter (\<lambda>item. snd item = None) input_values),
                Inr (frameset', True))
           \<and> (\<forall>(n, v) \<in> set input_values.
                 cells frameset' (row_frequency, id', n) =
                   (case v of
                      None \<Rightarrow> cells frameset (row_frequency, id', n)
                    | Some x \<Rightarrow> Some x))"
proof -
  define frameset2 where "frameset2 =
    fold (\<lambda>inpt fs. add_sink fs (in_name inpt) (in_datatype inpt) (in_path inpt)) inputs
      (install_json_edits frameset fixed_json_edits je_args)"
  define st where "st = fold (write_input row_frequency id') input_values (log, frameset2)"
  have c2: "cells frameset2 = cells frameset"
    by (simp add: frameset2_def fold_add_sink_inputs install_json_edits_def)
  have res: "ToBids row_frequency inputs frameset id' json_edits fixed_json_edits input_values log
     = (fst st, Inr (snd st, True))"
    by (simp add: ToBids_def json_edits_tokens [OF assms(1)] Let_def st_def frameset2_def)
  have lg: "fst st = log @ map (\<lambda>item. warning_message (fst item))
                        (filter (\<lambda>item. snd item = None) input_values)"
    by (simp add: st_def fold_write_input_log)
  have cl: "cells (snd st) (row_frequency, id', n) =
              (case v of None \<Rightarrow> cells frameset (row_frequency, id', n) | Some x \<Rightarrow> Some x)"
    if mem: "(n, v) \<in> set input_values" for n v
  proof (cases v)
    case None
    have "\<forall>x. (n, Some x) \<notin> set input_values"
    proof (intro allI notI)
      fix x assume "(n, Some x) \<in> set input_values"
      with mem assms(2) have "Some x = v" by (meson eq_key_imp_eq_value)
      with None show False by simp
    qed
    from fold_write_input_other [OF this, of row_frequency id' "(log, frameset2)"] None c2
    show ?thesis by (simp add: st_def)
  next
    case (Some x)
    with fold_write_input_written [OF assms(2), of n x row_frequency id' "(log, frameset2)"] mem
    show ?thesis by (simp add: st_def)
  qed
  show ?thesis
    unfolding res lg using cl lg by auto
qed

theorem absent_inputs_skipped_witness:
  "\<exists>frameset'.
     ToBids session
       [\<lparr>in_name = ''T1w'', in_path = ''anat/T1w'', in_datatype = ''NiftiGzX''\<rparr>,
        \<lparr>in_name = ''bold'', in_path = ''func/bold'', in_datatype = ''NiftiGzX''\<rparr>]
       (empty_frameset ''/data/bids'') ''01'' [] []
       [(''T1w'', Some (PStr ''/tmp/in.nii.gz'')), (''bold'', None)] []
     = ([''No input provided for 'bold' input''], Inr (frameset', True))
     \<and> cells frameset' (session, ''01'', ''T1w'') = Some (PStr ''/tmp/in.nii.gz'')
     \<and> cells frameset' (session, ''01'', ''bold'') = None"
proof -
  have h: "shlex_split [] = Inr []"
    by (simp add: shlex_split_def emit_def)
  have d: "distinct (map fst [(''T1w'', Some (PStr ''/tmp/in.nii.gz'')), (''bold'', None)])"
    by simp
  from absent_inputs_skipped [OF h d, of session
      "[\<lparr>in_name = ''T1w'', in_path = ''anat/T1w'', in_datatype = ''NiftiGzX''\<rparr>,
        \<lparr>in_name = ''bold'', in_path = ''func/bold'', in_datatype = ''NiftiGzX''\<rparr>]"
      "empty_frameset ''/data/bids''" "''01''" "[]" "[]"]
  show ?thesis
    by (simp add: warning_message_def empty_frameset_def)
qed

section \<open>Properties of Extract-Out\<close>

subsection \<open>Auxiliary facts\<close>

lemma rel_to_child: "rel_to dst (child dst rel) = Some rel"
  by (simp add: rel_to_def child_def)









lemma copytree_copies:
  "copytree fs src dst = Inr fs' \<Longrightarrow> fs' (child dst rel) = fs (child src rel)"
  by (auto simp: copytree_def rel_to_child split: if_splits)




lemma read_outputs_map:
  "read_outputs rg outputs = Inr vs
     \<Longrightarrow> map (\<lambda>output. rg (out_name output)) outputs = map Inr vs"
  by (induction outputs arbitrary: vs) (auto split: sum.splits)

lemma example_destinations:
  "derivatives_path ''/data/bids'' ''myapp'' ''01''
     = Path ''/'' [''data'', ''bids'', ''derivatives'', ''myapp'', ''sub-01'']"
  "derivatives_path ''/data/bids'' ''oldapp'' ''01''
     = Path ''/'' [''data'', ''bids'', ''derivatives'', ''oldapp'', ''sub-01'']"
  by (simp_all add: derivatives_path_def joinpath_def PurePath_def parse_anchor_def Let_def)

lemma example_copy:
  "\<exists>fs'. copytree example_fs (Path ''/'' [''out''])
            (derivatives_path (frameset_id (empty_frameset ''/data/bids'')) ''myapp'' ''01'')
          = Inr fs'"
  unfolding example_destinations empty_frameset_def
  by (simp add: example_destinations copytree_def example_fs_def ancestors_def is_file_def upt_rec)

subsection \<open>The copy into the derivatives area\<close>




subsection \<open>The returned value\<close>

text \<open>
  Claim C9, as the code has it. When the copy succeeds, every output can be read and
  there is at least one output, \<^verbatim>\<open>ExtractBids\<close> returns the resolved value itself for
  exactly one output and the tuple of the resolved values, in the order of the outputs,
  for more than one; the values are the reads of the columns named by the outputs, taken
  after all of them are registered. The returned value is that value or tuple alone.
\<close>

theorem single_or_tuple:
  assumes "copytree fs output_dir (derivatives_path (frameset_id dataset) app_name id') = Inr fs'"
      and "read_outputs (row_get (register_outputs dataset outputs app_name) fs' rf id') outputs
             = Inr vs"
      and "outputs \<noteq> []"
  shows "snd (ExtractBids row_get fs dataset rf app_name output_dir outputs id' c)
           = Inr (if length outputs = 1 then hd vs else PTuple vs)
         \<and> map (\<lambda>output. row_get (register_outputs dataset outputs app_name) fs' rf id'
                            (out_name output)) outputs
             = map Inr vs"
proof -
  from read_outputs_map [OF assms(2)]
  have m: "map (\<lambda>output. row_get (register_outputs dataset outputs app_name) fs' rf id'
                            (out_name output)) outputs = map Inr vs" .
  then have "length vs = length outputs" by (metis length_map)
  with assms(3) have "vs \<noteq> []" by auto
  then show ?thesis
    using assms m by (cases vs; cases outputs) (auto simp: ExtractBids_def Let_def)
qed

theorem single_or_tuple_witness:
  "snd (ExtractBids example_row_get example_fs (empty_frameset ''/data/bids'') session ''myapp''
          (Path ''/'' [''out'']) [example_output] ''01'' True)
     = Inr (PStr ''freesurfer/recon-all@myapp'')
   \<and> snd (ExtractBids example_row_get example_fs (empty_frameset ''/data/bids'') session ''myapp''
          (Path ''/'' [''out'']) [example_output, whole_output] ''01'' True)
     = Inr (PTuple [PStr ''freesurfer/recon-all@myapp'', PStr ''@myapp''])"
proof -
  let ?ds = "empty_frameset ''/data/bids''"
  obtain fs' where cp: "copytree example_fs (Path ''/'' [''out''])
            (derivatives_path (frameset_id ?ds) ''myapp'' ''01'') = Inr fs'"
    using example_copy by blast
  have r1: "read_outputs (example_row_get (register_outputs ?ds [example_output] ''myapp'') fs'
              session ''01'') [example_output] = Inr [PStr ''freesurfer/recon-all@myapp'']"
    by (simp add: example_row_get_def register_outputs_def add_sink_def empty_frameset_def
        example_output_def output_sink_path_def)
  have r2: "read_outputs
              (example_row_get (register_outputs ?ds [example_output, whole_output] ''myapp'') fs'
                 session ''01'') [example_output, whole_output]
            = Inr [PStr ''freesurfer/recon-all@myapp'', PStr ''@myapp'']"
    by (simp add: example_row_get_def register_outputs_def add_sink_def empty_frameset_def
        example_output_def whole_output_def output_sink_path_def)
  from single_or_tuple [where row_get = example_row_get and outputs = "[example_output]"
        and c = True, OF cp r1]
    single_or_tuple [where row_get = example_row_get
        and outputs = "[example_output, whole_output]" and c = True, OF cp r2]
  show ?thesis by simp
qed

text \<open>
  Claim C9 as it is stated has the value returned together with a completion signal.
  For one output the call returns the resolved value, not a pair of it and a flag.
\<close>

theorem completion_signal_counterexample:
  "snd (ExtractBids example_row_get example_fs (empty_frameset ''/data/bids'') session ''myapp''
          (Path ''/'' [''out'']) [example_output] ''01'' True)
     = Inr (PStr ''freesurfer/recon-all@myapp'')
   \<and> snd (ExtractBids example_row_get example_fs (empty_frameset ''/data/bids'') session ''myapp''
          (Path ''/'' [''out'']) [example_output] ''01'' True)
     \<noteq> Inr (PTuple [PStr ''freesurfer/recon-all@myapp'', PBool True])"
  by (simp add: ExtractBids_def example_destinations empty_frameset_def copytree_def
      example_fs_def ancestors_def is_file_def upt_rec Let_def example_row_get_def
      register_outputs_def add_sink_def example_output_def output_sink_path_def)

subsection \<open>No outputs\<close>

text \<open>
  Claim C10. With an empty list of outputs \<^verbatim>\<open>ExtractBids\<close> never returns a value: it
  raises. When the copy succeeds the exception is \<^verbatim>\<open>IndexError\<close>, raised after the copy
  has been made and with the dataset as it was, no sink being registered.
\<close>

theorem empty_outputs_IndexError:
  "isl (snd (ExtractBids row_get fs dataset rf app_name output_dir [] id' c))
   \<and> (\<forall>fs'. copytree fs output_dir (derivatives_path (frameset_id dataset) app_name id') = Inr fs'
        \<longrightarrow> ExtractBids row_get fs dataset rf app_name output_dir [] id' c
              = ((fs', dataset), Inl IndexError))"
  by (auto simp: ExtractBids_def Let_def register_outputs_def split: sum.splits)

theorem empty_outputs_IndexError_witness:
  "snd (ExtractBids example_row_get example_fs (empty_frameset ''/data/bids'') session ''myapp''
          (Path ''/'' [''out'']) [] ''01'' True) = Inl IndexError
   \<and> fst (fst (ExtractBids example_row_get example_fs (empty_frameset ''/data/bids'') session
                  ''myapp'' (Path ''/'' [''out'']) [] ''01'' True))
         (Path ''/'' [''data'', ''bids'', ''derivatives'', ''myapp'', ''sub-01'']) = Some Dir"
proof -
  let ?ds = "empty_frameset ''/data/bids''"
  obtain fs' where cp: "copytree example_fs (Path ''/'' [''out''])
            (derivatives_path (frameset_id ?ds) ''myapp'' ''01'') = Inr fs'"
    using example_copy by blast
  then have "fs' (child (derivatives_path (frameset_id ?ds) ''myapp'' ''01'') [])
               = example_fs (child (Path ''/'' [''out'']) [])"
    by (rule copytree_copies)
  then have d: "fs' (Path ''/'' [''data'', ''bids'', ''derivatives'', ''myapp'', ''sub-01''])
                  = Some Dir"
    by (simp add: child_def example_destinations empty_frameset_def example_fs_def)
  from empty_outputs_IndexError [of example_row_get example_fs ?ds session "''myapp''"
      "Path ''/'' [''out'']" "''01''" True] cp
  have "ExtractBids example_row_get example_fs ?ds session ''myapp'' (Path ''/'' [''out''])
          [] ''01'' True = ((fs', ?ds), Inl IndexError)"
    by blast
  with d show ?thesis by simp
qed

end
